theory Spec2Isabelle
  imports Complex_Main
begin

section \<open>Values shared by the store and the HTTP handlers\<close>

text \<open>
  An embedding vector is a Python list of floats. Components and distances are modelled as
  real numbers: rounding to float32 is not modelled, and no statement below depends on it.
  Raw image data is a list of bytes.
\<close>

type_synonym vec = "real list"
type_synonym bytes = "nat list"

text \<open>
  Exceptions are values. \<open>HTTPException status detail cause\<close> is FastAPI's exception; where
  the source builds the detail as \<open>f"...: {str(e)}"\<close>, \<open>detail\<close> is the literal prefix and
  \<open>cause\<close> is the exception \<open>e\<close> whose text is appended.
\<close>

datatype exc =
    ValueError string
  | IndexError string
  | AssertionError
  | RequestException string
  | HTTPException nat string "exc option"

type_synonym 'a result = "exc + 'a"

subsection \<open>Decimal text of integers: \<open>f"image_{i}"\<close>, \<open>f"vector_{i}"\<close>, \<open>int(s)\<close>, \<open>split\<close>\<close>

definition digit_char :: "nat \<Rightarrow> char" where
  "digit_char n = ''0123456789'' ! n"

function str_nat :: "nat \<Rightarrow> string" where
  "str_nat n = (if n < 10 then [digit_char n] else str_nat (n div 10) @ [digit_char (n mod 10)])"
  by pat_completeness auto
termination
  by (relation "measure (\<lambda>n. n)") auto

declare str_nat.simps [simp del]

text \<open>Python's \<open>str(i)\<close> of an integer, as an f-string writes it.\<close>

definition str_int :: "int \<Rightarrow> string" where
  "str_int i = (if i < 0 then CHR ''-'' # str_nat (nat (- i)) else str_nat (nat i))"

definition is_digit :: "char \<Rightarrow> bool" where
  "is_digit c = (c \<in> set ''0123456789'')"

definition digit_val :: "char \<Rightarrow> nat" where
  "digit_val c = of_char c - 48"

text \<open>
  \<open>int(s)\<close> on a string of decimal digits; any other string is reported as the
  \<open>ValueError\<close> Python raises for text that is not a number (Python also accepts a sign,
  surrounding blanks and underscores between digits, which no key built by
  \<open>search_duplicates\<close> contains).
\<close>

definition py_int :: "string \<Rightarrow> int result" where
  "py_int s =
     (if s \<noteq> [] \<and> list_all is_digit s
      then Inr (int (fold (\<lambda>c acc. acc * 10 + digit_val c) s 0))
      else Inl (ValueError ''invalid literal for int() with base 10''))"

text \<open>\<open>s.split(c)\<close> for a one-character separator: the pieces between the separators.\<close>

fun py_split :: "char \<Rightarrow> string \<Rightarrow> string list" where
  "py_split c [] = [[]]"
| "py_split c (x # xs) =
     (if x = c then [] # py_split c xs
      else (case py_split c xs of p # ps \<Rightarrow> (x # p) # ps | [] \<Rightarrow> [[x]]))"

text \<open>\<open>xs[i]\<close> for a non-negative index, raising \<open>IndexError\<close> out of range.\<close>

definition py_nth :: "'a list \<Rightarrow> nat \<Rightarrow> 'a result" where
  "py_nth xs i = (if i < length xs then Inr (xs ! i) else Inl (IndexError ''list index out of range''))"

text \<open>\<open>xs[s:e]\<close>: a slice clamps its bounds and never raises; a negative bound counts from the end.\<close>

definition py_slice :: "'a list \<Rightarrow> int \<Rightarrow> int \<Rightarrow> 'a list" where
  "py_slice xs s e =
     (let n = int (length xs);
          clamp = (\<lambda>i. if i < 0 then max 0 (i + n) else min i n);
          s' = clamp s; e' = clamp e
      in take (nat (e' - s')) (drop (nat s') xs))"

section \<open>The libraries the store calls\<close>

subsection \<open>\<open>numpy.array(vectors, dtype='float32')\<close>\<close>

text \<open>
  Only the shape of the array is used by the source. An empty list gives shape \<open>(0,)\<close>;
  rows of one common length \<open>L\<close> give shape \<open>(n, L)\<close>; rows of different lengths cannot
  be packed into a float array and numpy raises \<open>ValueError\<close>.
\<close>

definition np_array_shape :: "vec list \<Rightarrow> nat list result" where
  "np_array_shape vs =
     (case vs of
        [] \<Rightarrow> Inr [0]
      | v # ws \<Rightarrow>
          if list_all (\<lambda>w. length w = length v) ws then Inr [length vs, length v]
          else Inl (ValueError ''setting an array element with a sequence''))"

subsection \<open>\<open>faiss.IndexFlatL2\<close>\<close>

text \<open>
  The flat index keeps the added rows and searches them exhaustively under the squared
  Euclidean distance. \<open>search(x, k)\<close> returns, for every query row, exactly \<open>k\<close> distances
  and \<open>k\<close> labels in ascending order of distance; when the index holds fewer than \<open>k\<close> rows the
  remaining slots carry the label \<open>-1\<close> and the largest finite float32 as distance. The
  order of rows at equal distance is taken to be ascending label.
\<close>

record faiss_index =
  d :: nat
  xb :: "vec list"

definition IndexFlatL2 :: "nat \<Rightarrow> faiss_index" where
  "IndexFlatL2 dm = \<lparr>d = dm, xb = []\<rparr>"

definition ntotal :: "faiss_index \<Rightarrow> nat" where
  "ntotal ix = length (xb ix)"

definition faiss_add :: "faiss_index \<Rightarrow> vec list \<Rightarrow> faiss_index" where
  "faiss_add ix vs = ix\<lparr>xb := xb ix @ vs\<rparr>"

definition faiss_reset :: "faiss_index \<Rightarrow> faiss_index" where
  "faiss_reset ix = ix\<lparr>xb := []\<rparr>"

definition l2sqr :: "vec \<Rightarrow> vec \<Rightarrow> real" where
  "l2sqr x y = sum_list (map (\<lambda>(a, b). (a - b) * (a - b)) (zip x y))"

definition FLT_MAX :: real where
  "FLT_MAX = 340282346638528859811704183484516925440"

definition knn :: "vec list \<Rightarrow> vec \<Rightarrow> nat \<Rightarrow> (real \<times> int) list" where
  "knn rows q k =
     (let scored = map (\<lambda>j. (l2sqr q (rows ! j), int j)) [0..<length rows];
          best = take k (sort_key fst scored)
      in best @ replicate (k - length best) (FLT_MAX, - 1))"

text \<open>
  \<open>index.search(query_vectors, k)\<close> on the array built from the query rows. The Python
  wrapper unpacks \<open>n, d = x.shape\<close> (a \<open>ValueError\<close> for a one-dimensional array) and
  asserts \<open>d == self.d\<close> and \<open>k > 0\<close>. The result is the pair \<open>(distances, indices)\<close>,
  one row per query.
\<close>

definition faiss_search :: "faiss_index \<Rightarrow> nat list \<Rightarrow> vec list \<Rightarrow> int \<Rightarrow> (real list list \<times> int list list) result" where
  "faiss_search ix shape qs k =
     (if length shape \<noteq> 2 then Inl (ValueError ''not enough values to unpack'')
      else if shape ! 1 \<noteq> d ix then Inl AssertionError
      else if k \<le> 0 then Inl AssertionError
      else let hits = map (\<lambda>q. knn (xb ix) q (nat k)) qs
           in Inr (map (map fst) hits, map (map snd) hits))"

section \<open>\<open>app/db.py\<close>: class \<open>VectorDB\<close>\<close>

record vector_db =
  dim :: nat
  index :: faiss_index
  vectors :: "vec list"
  request_map :: "string \<rightharpoonup> int \<times> int"
  image_names :: "string list"

definition VectorDB :: "nat \<Rightarrow> vector_db" where
  "VectorDB dm =
     \<lparr>dim = dm, index = IndexFlatL2 dm, vectors = [], request_map = Map.empty, image_names = []\<rparr>"

text \<open>
  Every method takes the store and returns its outcome together with the store as the call
  leaves it, also when it raises.
\<close>

definition add_vectors :: "vector_db \<Rightarrow> string \<Rightarrow> vec list \<Rightarrow> unit result \<times> vector_db" where
  "add_vectors db request_id vs =
     (case np_array_shape vs of
        Inl e \<Rightarrow> (Inl e, db)
      | Inr shape \<Rightarrow>
          if length shape \<noteq> 2 then (Inl (IndexError ''tuple index out of range''), db)
          else if shape ! 1 \<noteq> dim db then
            (Inl (ValueError (''Expected vector dimension '' @ str_nat (dim db)
                     @ '', but got '' @ str_nat (shape ! 1))), db)
          else
            let db1 = db\<lparr>index := faiss_add (index db) vs\<rparr>;
                start_index = int (length (vectors db1));
                end_index = start_index + int (length vs);
                new_image_names = map (\<lambda>i. ''image_'' @ str_int i) [start_index + 1..end_index];
                db2 = db1\<lparr>image_names := image_names db1 @ new_image_names\<rparr>;
                db3 = db2\<lparr>request_map := (request_map db2)(request_id \<mapsto> (start_index, end_index))\<rparr>;
                db4 = db3\<lparr>vectors := vectors db3 @ vs\<rparr>
            in (Inr (), db4))"

text \<open>
  The dictionary returned by \<open>search_duplicates\<close>, in insertion order: the key
  \<open>vector_i\<close> with its \<open>indices\<close> and \<open>distances\<close> rows.
\<close>

type_synonym duplicates = "(string \<times> int list \<times> real list) list"

definition search_duplicates :: "vector_db \<Rightarrow> string \<Rightarrow> int \<Rightarrow> duplicates result \<times> vector_db" where
  "search_duplicates db request_id k =
     (case request_map db request_id of
        None \<Rightarrow> (Inl (ValueError ''Request ID not found''), db)
      | Some (start_index, end_index) \<Rightarrow>
          let qs = py_slice (vectors db) start_index end_index
          in (case np_array_shape qs of
                Inl e \<Rightarrow> (Inl e, db)
              | Inr shape \<Rightarrow>
                  (case faiss_search (index db) shape qs k of
                     Inl e \<Rightarrow> (Inl e, db)
                   | Inr (distances, indices) \<Rightarrow>
                       (Inr (map (\<lambda>(i, dist, ind). (''vector_'' @ str_nat i, ind, dist))
                               (zip [0..<length distances] (zip distances indices))), db))))"

definition get_image_name :: "vector_db \<Rightarrow> int \<Rightarrow> string option \<times> vector_db" where
  "get_image_name db idx =
     (if 0 \<le> idx \<and> idx < int (length (image_names db))
      then (Some (image_names db ! nat idx), db)
      else (None, db))"

definition reset :: "vector_db \<Rightarrow> unit \<times> vector_db" where
  "reset db =
     (let db1 = db\<lparr>index := faiss_reset (index db)\<rparr>;
          db2 = db1\<lparr>vectors := []\<rparr>;
          db3 = db2\<lparr>request_map := Map.empty\<rparr>;
          db4 = db3\<lparr>image_names := []\<rparr>
      in ((), db4))"

section \<open>\<open>app/api.py\<close>: the HTTP handlers\<close>

text \<open>
  The collaborators a handler calls outside the repository's own logic: the embedding model
  of \<open>app/models/image_model.py\<close> (a network inference), \<open>base64.b64decode\<close> and
  \<open>requests.get\<close> (status code and content of the response). Each returns a value or the
  exception it raised.
\<close>

record env =
  image_to_vector :: "bytes \<Rightarrow> vec result"
  b64decode :: "string \<Rightarrow> bytes result"
  requests_get :: "string \<Rightarrow> (nat \<times> bytes) result"

definition process_image :: "env \<Rightarrow> bytes \<Rightarrow> vec result" where
  "process_image ev image_bytes =
     (if length image_bytes > 10 * 1024 * 1024
      then Inl (HTTPException 400 ''Image size exceeds 10 MB'' None)
      else (case image_to_vector ev image_bytes of
              Inr vector \<Rightarrow> Inr vector
            | Inl e \<Rightarrow> Inl (HTTPException 500 ''Error processing image: '' (Some e))))"

record upload_file =
  content_type :: string
  file_bytes :: bytes

text \<open>
  The JSON body as the handler reads it: the two keys it looks up, each absent or a list of
  strings. \<open>json_body\<close> is \<open>None\<close> when \<open>request.json()\<close> raises.
\<close>

record json_data =
  base64_images :: "string list option"
  image_urls :: "string list option"

record request =
  content_type_header :: "string option"
  json_body :: "json_data option"

record add_response =
  response_request_id :: string
  added_images :: nat
  system_image_names :: "string list"

text \<open>The three loops of \<open>add_images\<close>; each appends to \<open>vectors\<close> and stops at the first raise.\<close>

fun multipart_loop :: "env \<Rightarrow> upload_file list \<Rightarrow> vec list \<Rightarrow> vec list result" where
  "multipart_loop ev [] vs = Inr vs"
| "multipart_loop ev (file # files) vs =
     (if content_type file \<notin> set [''image/jpeg'', ''image/png'']
      then Inl (HTTPException 400 (''Unsupported file type: '' @ content_type file) None)
      else (case process_image ev (file_bytes file) of
              Inl e \<Rightarrow> Inl e
            | Inr vector \<Rightarrow> multipart_loop ev files (vs @ [vector])))"

text \<open>
  The Base64 loop wraps decoding and \<open>process_image\<close> in \<open>try ... except Exception\<close>; an
  \<open>HTTPException\<close> is an \<open>Exception\<close>, so whatever the body raises is re-raised with status 500.
\<close>

fun base64_loop :: "env \<Rightarrow> string list \<Rightarrow> vec list \<Rightarrow> vec list result" where
  "base64_loop ev [] vs = Inr vs"
| "base64_loop ev (image_b64 # rest) vs =
     (case (case b64decode ev image_b64 of
              Inl e \<Rightarrow> Inl e
            | Inr image_bytes \<Rightarrow> process_image ev image_bytes) of
        Inl e \<Rightarrow> Inl (HTTPException 500 ''Error processing Base64 image: '' (Some e))
      | Inr vector \<Rightarrow> base64_loop ev rest (vs @ [vector]))"

text \<open>The URL loop catches \<open>requests.exceptions.RequestException\<close> only.\<close>

fun url_loop :: "env \<Rightarrow> string list \<Rightarrow> vec list \<Rightarrow> vec list result" where
  "url_loop ev [] vs = Inr vs"
| "url_loop ev (image_url # rest) vs =
     (case requests_get ev image_url of
        Inl (RequestException m) \<Rightarrow>
          Inl (HTTPException 500 ''Error processing image from URL: '' (Some (RequestException m)))
      | Inl e \<Rightarrow> Inl e
      | Inr (status_code, image_bytes) \<Rightarrow>
          if status_code \<noteq> 200 then
            Inl (HTTPException 400 (''Failed to download image from URL: '' @ image_url
                   @ '' (Status code: '' @ str_nat status_code @ '')'') None)
          else if image_bytes = [] then
            Inl (HTTPException 400 (''Downloaded image is empty from URL: '' @ image_url) None)
          else (case process_image ev image_bytes of
                  Inl e \<Rightarrow> Inl e
                | Inr vector \<Rightarrow> url_loop ev rest (vs @ [vector])))"

text \<open>Everything \<open>add_images\<close> does before it touches the store: the batch of vectors, or the raise.\<close>

definition gather_vectors :: "env \<Rightarrow> request \<Rightarrow> upload_file list option \<Rightarrow> vec list result" where
  "gather_vectors ev req files =
     (let data = (if content_type_header req = Some ''application/json'' then json_body req else None)
      in case multipart_loop ev (case files of None \<Rightarrow> [] | Some fs \<Rightarrow> fs) [] of
           Inl e \<Rightarrow> Inl e
         | Inr vs1 \<Rightarrow>
             (case base64_loop ev
                     (case data of None \<Rightarrow> [] | Some dt \<Rightarrow> (case base64_images dt of None \<Rightarrow> [] | Some l \<Rightarrow> l))
                     vs1 of
                Inl e \<Rightarrow> Inl e
              | Inr vs2 \<Rightarrow>
                  url_loop ev
                    (case data of None \<Rightarrow> [] | Some dt \<Rightarrow> (case image_urls dt of None \<Rightarrow> [] | Some l \<Rightarrow> l))
                    vs2))"

text \<open>\<open>request_id\<close> is the fresh \<open>uuid4\<close> the handler draws; it is an argument here.\<close>

definition add_images ::
  "env \<Rightarrow> vector_db \<Rightarrow> string \<Rightarrow> request \<Rightarrow> upload_file list option \<Rightarrow> add_response result \<times> vector_db" where
  "add_images ev db request_id req files =
     (case gather_vectors ev req files of
        Inl e \<Rightarrow> (Inl e, db)
      | Inr vs \<Rightarrow>
          if vs = [] then (Inl (HTTPException 400 ''No valid images provided'' None), db)
          else (case add_vectors db request_id vs of
                  (Inl e, db1) \<Rightarrow> (Inl e, db1)
                | (Inr u, db1) \<Rightarrow>
                    let start_index = int (length (vectors db1)) - int (length vs);
                        end_index = int (length (vectors db1));
                        names = map (\<lambda>i. ''image_'' @ str_int i) [start_index + 1..end_index]
                    in (Inr \<lparr>response_request_id = request_id, added_images = length vs,
                              system_image_names = names\<rparr>, db1)))"

text \<open>
  The inner loop of \<open>find_duplicates\<close> over one row of hits. \<open>all_duplicates\<close> is a Python
  set; it is kept as a list without repetitions (\<open>List.insert\<close> adds an element only when
  absent). The order in which Python iterates a set is not modelled.
\<close>

fun scan_hits :: "int \<Rightarrow> real \<Rightarrow> int list \<Rightarrow> real list \<Rightarrow> int list \<Rightarrow> int list result" where
  "scan_hits current_index threshold [] ds acc = Inr acc"
| "scan_hits current_index threshold (j # js) [] acc =
     (if j \<noteq> current_index then Inl (IndexError ''list index out of range'')
      else scan_hits current_index threshold js [] acc)"
| "scan_hits current_index threshold (j # js) (dj # ds) acc =
     scan_hits current_index threshold js ds
       (if j \<noteq> current_index \<and> dj \<le> threshold then List.insert j acc else acc)"

fun collect_duplicates :: "int \<Rightarrow> real \<Rightarrow> duplicates \<Rightarrow> int list \<Rightarrow> int list result" where
  "collect_duplicates start_index threshold [] acc = Inr acc"
| "collect_duplicates start_index threshold ((vector_key, indices, distances) # rest) acc =
     (case py_nth (py_split CHR ''_'' vector_key) 1 of
        Inl e \<Rightarrow> Inl e
      | Inr s \<Rightarrow>
          (case py_int s of
             Inl e \<Rightarrow> Inl e
           | Inr current_vector_number \<Rightarrow>
               (case scan_hits (start_index + current_vector_number) threshold indices distances acc of
                  Inl e \<Rightarrow> Inl e
                | Inr acc' \<Rightarrow> collect_duplicates start_index threshold rest acc')))"

datatype find_response =
    Message string
  | Duplicates string "string option list"

definition find_duplicates ::
  "vector_db \<Rightarrow> string \<Rightarrow> real \<Rightarrow> int \<Rightarrow> find_response result \<times> vector_db" where
  "find_duplicates db request_id threshold k =
     (case request_map db request_id of
        None \<Rightarrow> (Inl (HTTPException 404 ''Request ID not found'' None), db)
      | Some (start_index, uu) \<Rightarrow>
          (case search_duplicates db request_id k of
             (Inl e, db1) \<Rightarrow> (Inl (HTTPException 500 ''Error during search: '' (Some e)), db1)
           | (Inr duplicates_indices, db1) \<Rightarrow>
               (case collect_duplicates start_index threshold duplicates_indices [] of
                  Inl e \<Rightarrow> (Inl e, db1)
                | Inr all_duplicates \<Rightarrow>
                    if all_duplicates = [] then (Inr (Message ''No duplicates found''), db1)
                    else (Inr (Duplicates request_id
                                 (map (\<lambda>idx. fst (get_image_name db1 idx)) all_duplicates)), db1))))"

section \<open>Auxiliary notions for the statements\<close>

text \<open>The store as a successful \<open>add_vectors\<close> leaves it.\<close>

definition committed :: "vector_db \<Rightarrow> string \<Rightarrow> vec list \<Rightarrow> vector_db" where
  "committed db request_id vs =
     db\<lparr>index := faiss_add (index db) vs,
        image_names := image_names db
           @ map (\<lambda>i. ''image_'' @ str_int i)
               [int (length (vectors db)) + 1..int (length (vectors db)) + int (length vs)],
        request_map := (request_map db)(request_id \<mapsto>
           (int (length (vectors db)), int (length (vectors db)) + int (length vs))),
        vectors := vectors db @ vs\<rparr>"

text \<open>The external name of a corpus index: \<open>"image_" + (i + 1)\<close>.\<close>

definition name_of_index :: "nat \<Rightarrow> string" where
  "name_of_index i = ''image_'' @ str_int (int i + 1)"

text \<open>
  Every record of the request map is a range \<open>0 \<le> start \<le> end \<le> N\<close> of the corpus, \<open>N\<close>
  being the number of stored vectors.
\<close>

definition records_in_range :: "vector_db \<Rightarrow> bool" where
  "records_in_range db =
     (\<forall>(start_index, end_index) \<in> ran (request_map db).
        0 \<le> start_index \<and> start_index \<le> end_index \<and> end_index \<le> int (length (vectors db)))"

text \<open>
  The stores that \<open>VectorDB\<close>, \<open>add_vectors\<close> and \<open>reset\<close> produce: the index holds the
  vectors of the list, every vector has the store's dimension, the names are those of the
  indices, and every record is a non-empty range of the corpus.
\<close>

definition store_ok :: "vector_db \<Rightarrow> bool" where
  "store_ok db =
     (d (index db) = dim db \<and> xb (index db) = vectors db \<and>
      (\<forall>v \<in> set (vectors db). length v = dim db) \<and>
      image_names db = map name_of_index [0..<length (vectors db)] \<and>
      (\<forall>(start_index, end_index) \<in> ran (request_map db).
         0 \<le> start_index \<and> start_index < end_index \<and> end_index \<le> int (length (vectors db))))"

text \<open>
  Concrete stores and requests used to instantiate the statements: a one-dimensional store
  holding the same vector twice under the request \<open>r\<close>; collaborators that embed every image
  as \<open>[1, 2]\<close> and hand out an image one byte above the size limit for every Base64 text
  and URL; one uploaded PNG of a single byte; a request without JSON body.
\<close>

definition store_two :: vector_db where
  "store_two = snd (add_vectors (VectorDB 1) ''r'' [[0], [0]])"

definition demo_env :: env where
  "demo_env = \<lparr>image_to_vector = (\<lambda>b. Inr [1, 2]),
               b64decode = (\<lambda>s. Inr (replicate (10 * 1024 * 1024 + 1) 0)),
               requests_get = (\<lambda>u. Inr (200, replicate (10 * 1024 * 1024 + 1) 0))\<rparr>"

definition demo_upload :: "upload_file list option" where
  "demo_upload = Some [\<lparr>content_type = ''image/png'', file_bytes = [0]\<rparr>]"

definition plain_request :: request where
  "plain_request = \<lparr>content_type_header = None, json_body = None\<rparr>"

text \<open>
  Requests that carry an image one byte above the size limit: as Base64 text, by URL, and as
  a multipart upload (\<open>demo_env\<close> decodes and downloads exactly such an image).
\<close>

definition base64_request :: request where
  "base64_request = \<lparr>content_type_header = Some ''application/json'',
      json_body = Some \<lparr>base64_images = Some [''AAAA''], image_urls = None\<rparr>\<rparr>"

definition url_request :: request where
  "url_request = \<lparr>content_type_header = Some ''application/json'',
      json_body = Some \<lparr>base64_images = None, image_urls = Some [''http://example.com/a.jpg'']\<rparr>\<rparr>"

definition big_upload :: "upload_file list option" where
  "big_upload = Some [\<lparr>content_type = ''image/jpeg'',
                        file_bytes = replicate (10 * 1024 * 1024 + 1) 0\<rparr>]"

text \<open>
  The value of the local set \<open>all_duplicates\<close> of \<open>find_duplicates\<close> when its loops end
  (or the exception raised before): \<open>find_duplicates_all_duplicates\<close> states that the
  handler's answer is computed from it.
\<close>

definition all_duplicates :: "vector_db \<Rightarrow> string \<Rightarrow> real \<Rightarrow> int \<Rightarrow> int list result" where
  "all_duplicates db request_id threshold k =
     (case request_map db request_id of
        None \<Rightarrow> Inl (HTTPException 404 ''Request ID not found'' None)
      | Some (start_index, uu) \<Rightarrow>
          (case search_duplicates db request_id k of
             (Inl e, db1) \<Rightarrow> Inl (HTTPException 500 ''Error during search: '' (Some e))
           | (Inr duplicates_indices, db1) \<Rightarrow>
               collect_duplicates start_index threshold duplicates_indices []))"

section \<open>Decimal text: printing and reading back\<close>










section \<open>\<open>add_vectors\<close>: acceptance and rejection\<close>

lemma np_array_shape_uniform:
  "vs \<noteq> [] \<Longrightarrow> \<forall>v\<in>set vs. length v = n \<Longrightarrow> np_array_shape vs = Inr [length vs, n]"
  by (cases vs) (auto simp: np_array_shape_def list_all_iff)

lemma np_array_shape_cases:
  "np_array_shape vs = Inr shape \<Longrightarrow>
     (vs = [] \<and> shape = [0]) \<or>
     (vs \<noteq> [] \<and> shape = [length vs, length (hd vs)] \<and> (\<forall>v\<in>set vs. length v = length (hd vs)))"
  by (cases vs) (auto simp: np_array_shape_def list_all_iff split: if_splits)

lemma add_vectors_success:
  "vs \<noteq> [] \<Longrightarrow> \<forall>v\<in>set vs. length v = dim db \<Longrightarrow>
     add_vectors db request_id vs = (Inr (), committed db request_id vs)"
  by (simp add: add_vectors_def np_array_shape_uniform [where n = "dim db"] committed_def Let_def)

lemma np_array_shape_Inl:
  "np_array_shape vs = Inl e \<Longrightarrow> e = ValueError ''setting an array element with a sequence''"
  by (cases vs) (simp_all add: np_array_shape_def split: if_splits)

lemma add_vectors_rejected:
  assumes "\<not> (vs \<noteq> [] \<and> (\<forall>v\<in>set vs. length v = dim db))"
  shows "\<exists>e. add_vectors db request_id vs = (Inl e, db)"
proof (cases "np_array_shape vs")
  case (Inl e)
  then show ?thesis by (simp add: add_vectors_def)
next
  case (Inr shape)
  from np_array_shape_cases [OF Inr] show ?thesis
  proof
    assume "vs = [] \<and> shape = [0]"
    with Inr show ?thesis by (simp add: add_vectors_def)
  next
    assume h: "vs \<noteq> [] \<and> shape = [length vs, length (hd vs)] \<and> (\<forall>v\<in>set vs. length v = length (hd vs))"
    from assms h obtain w where "w \<in> set vs" "length w \<noteq> dim db" by blast
    with h have "length (hd vs) \<noteq> dim db" by metis
    moreover from h have "shape = [length vs, length (hd vs)]" by blast
    ultimately show ?thesis using Inr by (simp add: add_vectors_def)
  qed
qed

lemma add_vectors_Inr:
  assumes "add_vectors db request_id vs = (Inr u, db')"
  shows "vs \<noteq> [] \<and> (\<forall>v\<in>set vs. length v = dim db) \<and> db' = committed db request_id vs"
proof (cases "vs \<noteq> [] \<and> (\<forall>v\<in>set vs. length v = dim db)")
  case True
  then have "add_vectors db request_id vs = (Inr (), committed db request_id vs)"
    by (simp add: add_vectors_success)
  with assms True show ?thesis by simp
next
  case False
  from add_vectors_rejected [OF False, of request_id] assms show ?thesis by auto
qed

lemma add_vectors_failure_unchanged:
  assumes "add_vectors db request_id vs = (Inl e, db')"
  shows "db' = db"
proof (cases "vs \<noteq> [] \<and> (\<forall>v\<in>set vs. length v = dim db)")
  case True
  then have "add_vectors db request_id vs = (Inr (), committed db request_id vs)"
    by (simp add: add_vectors_success)
  with assms show ?thesis by simp
next
  case False
  from add_vectors_rejected [OF False, of request_id] assms show ?thesis by auto
qed

section \<open>The store after a call\<close>

lemma names_upto:
  "map (\<lambda>i. ''image_'' @ str_int i) [int a + 1..int a + int n] = map name_of_index [a..<a + n]"
proof (induction n)
  case 0
  then show ?case by simp
next
  case (Suc n)
  have "[int a + 1..int a + int (Suc n)] = [int a + 1..int a + int n] @ [int a + int n + 1]"
    using upto_rec2 [of "int a + 1" "int a + int (Suc n)"] by (simp add: add.commute add.left_commute)
  with Suc show ?case by (simp add: name_of_index_def add.commute add.left_commute)
qed

lemma committed_fields:
  "vectors (committed db request_id vs) = vectors db @ vs"
  "image_names (committed db request_id vs) =
     image_names db @ map name_of_index [length (vectors db)..<length (vectors db) + length vs]"
  "request_map (committed db request_id vs) =
     (request_map db)(request_id \<mapsto> (int (length (vectors db)), int (length (vectors db)) + int (length vs)))"
  "index (committed db request_id vs) = faiss_add (index db) vs"
  "dim (committed db request_id vs) = dim db"
  by (simp_all add: committed_def names_upto [simplified])

lemma reset_fields:
  "vectors (snd (reset db)) = []"
  "image_names (snd (reset db)) = []"
  "request_map (snd (reset db)) = Map.empty"
  "index (snd (reset db)) = faiss_reset (index db)"
  "dim (snd (reset db)) = dim db"
  by (simp_all add: reset_def Let_def)

lemma search_duplicates_state: "snd (search_duplicates db request_id k) = db"
  by (simp add: search_duplicates_def Let_def split: option.splits sum.splits prod.splits)

lemma get_image_name_state: "snd (get_image_name db idx) = db"
  by (simp add: get_image_name_def)

lemma add_vectors_state:
  "snd (add_vectors db request_id vs) = db \<or>
   snd (add_vectors db request_id vs) = committed db request_id vs"
proof (cases "vs \<noteq> [] \<and> (\<forall>v\<in>set vs. length v = dim db)")
  case True
  then show ?thesis by (simp add: add_vectors_success)
next
  case False
  from add_vectors_rejected [OF False, of request_id] show ?thesis by auto
qed

lemma records_in_range_committed:
  assumes "records_in_range db"
  shows "records_in_range (committed db request_id vs)"
  unfolding records_in_range_def
proof (clarify)
  fix s e
  assume "(s, e) \<in> ran (request_map (committed db request_id vs))"
  then obtain r where r: "((request_map db)(request_id \<mapsto>
      (int (length (vectors db)), int (length (vectors db)) + int (length vs)))) r = Some (s, e)"
    by (auto simp: ran_def committed_fields)
  show "0 \<le> s \<and> s \<le> e \<and> e \<le> int (length (vectors (committed db request_id vs)))"
  proof (cases "r = request_id")
    case True
    with r show ?thesis by (simp add: committed_fields)
  next
    case False
    with r have "(s, e) \<in> ran (request_map db)" by (auto simp: ran_def)
    with assms have "0 \<le> s \<and> s \<le> e \<and> e \<le> int (length (vectors db))"
      by (auto simp: records_in_range_def)
    then show ?thesis by (simp add: committed_fields)
  qed
qed

subsection \<open>The stores that the methods produce\<close>

lemma str_int_small:
  "str_int 1 = ''1''" "str_int 2 = ''2''" "str_int 3 = ''3''"
  by (simp_all add: str_int_def str_nat.simps digit_char_def)

lemma name_of_index_small:
  "name_of_index 0 = ''image_1''" "name_of_index (Suc 0) = ''image_2''"
  "name_of_index (Suc (Suc 0)) = ''image_3''"
  by (simp_all add: name_of_index_def str_int_small)

lemma store_two_eq:
  "store_two = \<lparr>dim = 1, index = \<lparr>d = 1, xb = [[0], [0]]\<rparr>, vectors = [[0], [0]],
      request_map = [''r'' \<mapsto> (0, 2)], image_names = [''image_1'', ''image_2'']\<rparr>"
  by (simp add: store_two_def add_vectors_success committed_def VectorDB_def IndexFlatL2_def
        faiss_add_def upto_rec1 str_int_small)


lemma store_ok_reset: "store_ok db \<Longrightarrow> store_ok (snd (reset db))"
  by (simp add: store_ok_def reset_fields faiss_reset_def)




section \<open>\<open>add_images\<close>: outcome, and images above the size limit\<close>

lemma add_images_Inr:
  assumes "add_images ev db request_id req files = (Inr resp, db')"
  shows "\<exists>vs. gather_vectors ev req files = Inr vs \<and> vs \<noteq> [] \<and>
           add_vectors db request_id vs = (Inr (), db') \<and>
           resp = \<lparr>response_request_id = request_id, added_images = length vs,
                    system_image_names = map name_of_index
                      [length (vectors db)..<length (vectors db) + length vs]\<rparr>"
proof (cases "gather_vectors ev req files")
  case (Inl e)
  with assms show ?thesis by (simp add: add_images_def)
next
  case (Inr vs)
  show ?thesis
  proof (cases "vs = []")
    case True
    with assms Inr show ?thesis by (simp add: add_images_def)
  next
    case False
    obtain res db1 where a: "add_vectors db request_id vs = (res, db1)"
      by (cases "add_vectors db request_id vs")
    show ?thesis
    proof (cases res)
      case (Inl e)
      with assms Inr False a show ?thesis by (simp add: add_images_def)
    next
      case (Inr u)
      with a add_vectors_Inr have db1: "db1 = committed db request_id vs" by blast
      have names: "map (\<lambda>i. ''image_'' @ str_int i)
              [int (length (vectors db1)) - int (length vs) + 1..int (length (vectors db1))]
            = map name_of_index [length (vectors db)..<length (vectors db) + length vs]"
        using names_upto [of "length (vectors db)" "length vs"]
        by (simp add: db1 committed_fields)
      from assms \<open>gather_vectors ev req files = Inr vs\<close> False a Inr
      have "db' = db1" and "resp = \<lparr>response_request_id = request_id, added_images = length vs,
          system_image_names = map (\<lambda>i. ''image_'' @ str_int i)
              [int (length (vectors db1)) - int (length vs) + 1..int (length (vectors db1))]\<rparr>"
        by (auto simp: add_images_def Let_def)
      with names a Inr \<open>gather_vectors ev req files = Inr vs\<close> False show ?thesis by simp
    qed
  qed
qed

lemma demo_add_images:
  "add_images demo_env (VectorDB 2) ''r'' plain_request demo_upload
     = (Inr \<lparr>response_request_id = ''r'', added_images = 1, system_image_names = [''image_1'']\<rparr>,
        committed (VectorDB 2) ''r'' [[1, 2]])"
  by (simp add: add_images_def gather_vectors_def demo_env_def demo_upload_def plain_request_def
        process_image_def add_vectors_success VectorDB_def committed_fields str_int_small)

lemma VectorDB_fields:
  "dim (VectorDB n) = n" "index (VectorDB n) = IndexFlatL2 n" "vectors (VectorDB n) = []"
  "request_map (VectorDB n) = Map.empty" "image_names (VectorDB n) = []"
  by (simp_all add: VectorDB_def)

lemma process_image_oversize:
  "10 * 1024 * 1024 < length image_bytes \<Longrightarrow>
     process_image ev image_bytes = Inl (HTTPException 400 ''Image size exceeds 10 MB'' None)"
  by (simp add: process_image_def)

lemma multipart_oversize:
  "content_type file = ''image/jpeg'' \<or> content_type file = ''image/png'' \<Longrightarrow>
   10 * 1024 * 1024 < length (file_bytes file) \<Longrightarrow>
     multipart_loop ev (file # files) vs
       = Inl (HTTPException 400 ''Image size exceeds 10 MB'' None)"
  by (auto simp: process_image_oversize)

lemma url_oversize:
  "requests_get ev image_url = Inr (200, image_bytes) \<Longrightarrow>
   10 * 1024 * 1024 < length image_bytes \<Longrightarrow>
     url_loop ev (image_url # rest) vs
       = Inl (HTTPException 400 ''Image size exceeds 10 MB'' None)"
  by (auto simp: process_image_oversize)

lemma base64_oversize:
  "b64decode ev image_b64 = Inr image_bytes \<Longrightarrow>
   10 * 1024 * 1024 < length image_bytes \<Longrightarrow>
     base64_loop ev (image_b64 # rest) vs
       = Inl (HTTPException 500 ''Error processing Base64 image: ''
               (Some (HTTPException 400 ''Image size exceeds 10 MB'' None)))"
  by (simp add: process_image_oversize)

lemma add_images_failure_unchanged:
  assumes "add_images ev db request_id req files = (Inl e, db')"
  shows "db' = db"
proof (cases "gather_vectors ev req files")
  case (Inl e')
  with assms show ?thesis by (simp add: add_images_def)
next
  case (Inr vs)
  show ?thesis
  proof (cases "vs = []")
    case True
    with assms Inr show ?thesis by (simp add: add_images_def)
  next
    case False
    obtain res db1 where a: "add_vectors db request_id vs = (res, db1)"
      by (cases "add_vectors db request_id vs")
    show ?thesis
    proof (cases res)
      case (Inl e')
      with a add_vectors_failure_unchanged have "db1 = db" by blast
      with assms Inr False a Inl show ?thesis by (simp add: add_images_def)
    next
      case (Inr u)
      with assms \<open>gather_vectors ev req files = Inr vs\<close> False a show ?thesis
        by (simp add: add_images_def Let_def)
    qed
  qed
qed

lemma add_images_state:
  "snd (add_images ev db request_id req files) = db \<or>
   (\<exists>vs. snd (add_images ev db request_id req files) = committed db request_id vs)"
proof -
  obtain res db' where a: "add_images ev db request_id req files = (res, db')"
    by (cases "add_images ev db request_id req files")
  show ?thesis
  proof (cases res)
    case (Inl e)
    with a add_images_failure_unchanged have "db' = db" by blast
    with a show ?thesis by simp
  next
    case (Inr resp)
    with a add_images_Inr obtain vs where "add_vectors db request_id vs = (Inr (), db')" by blast
    with add_vectors_Inr have "db' = committed db request_id vs" by blast
    with a show ?thesis by auto
  qed
qed

lemma multipart_upload_oversize_400:
  "add_images demo_env (VectorDB 2) ''r'' plain_request big_upload
     = (Inl (HTTPException 400 ''Image size exceeds 10 MB'' None), VectorDB 2)"
  by (simp add: add_images_def gather_vectors_def plain_request_def big_upload_def
        process_image_oversize)

lemma url_oversize_400:
  "add_images demo_env (VectorDB 2) ''r'' url_request None
     = (Inl (HTTPException 400 ''Image size exceeds 10 MB'' None), VectorDB 2)"
  by (simp add: add_images_def gather_vectors_def url_request_def demo_env_def
        process_image_oversize)

lemma multipart_loop_oversize_fails:
  "\<exists>file\<in>set files. 10 * 1024 * 1024 < length (file_bytes file) \<Longrightarrow>
     \<exists>e. multipart_loop ev files vs = Inl e"
proof (induction files arbitrary: vs)
  case Nil
  then show ?case by simp
next
  case (Cons f files)
  show ?case
  proof (cases "10 * 1024 * 1024 < length (file_bytes f)")
    case True
    then show ?thesis by (simp add: process_image_oversize)
  next
    case False
    with Cons.prems have "\<exists>f\<in>set files. 10 * 1024 * 1024 < length (file_bytes f)" by auto
    from Cons.IH [OF this] show ?thesis by (simp split: sum.splits)
  qed
qed

lemma base64_loop_oversize_fails:
  "\<exists>s\<in>set images. \<exists>bs. b64decode ev s = Inr bs \<and> 10 * 1024 * 1024 < length bs \<Longrightarrow>
     \<exists>e. base64_loop ev images vs = Inl e"
proof (induction images arbitrary: vs)
  case Nil
  then show ?case by simp
next
  case (Cons s images)
  show ?case
  proof (cases "\<exists>bs. b64decode ev s = Inr bs \<and> 10 * 1024 * 1024 < length bs")
    case True
    then show ?thesis by (auto simp: process_image_oversize)
  next
    case False
    with Cons.prems
    have "\<exists>s\<in>set images. \<exists>bs. b64decode ev s = Inr bs \<and> 10 * 1024 * 1024 < length bs"
      by auto
    from Cons.IH [OF this] show ?thesis by (simp split: sum.splits)
  qed
qed

lemma url_loop_oversize_fails:
  "\<exists>u\<in>set urls. \<exists>st bs. requests_get ev u = Inr (st, bs) \<and> 10 * 1024 * 1024 < length bs \<Longrightarrow>
     \<exists>e. url_loop ev urls vs = Inl e"
proof (induction urls arbitrary: vs)
  case Nil
  then show ?case by simp
next
  case (Cons u urls)
  show ?case
  proof (cases "\<exists>st bs. requests_get ev u = Inr (st, bs) \<and> 10 * 1024 * 1024 < length bs")
    case True
    then show ?thesis by (auto simp: process_image_oversize)
  next
    case False
    with Cons.prems
    have "\<exists>u\<in>set urls. \<exists>st bs. requests_get ev u = Inr (st, bs) \<and> 10 * 1024 * 1024 < length bs"
      by auto
    from Cons.IH [OF this] show ?thesis
      by (simp split: sum.splits exc.splits prod.splits)
  qed
qed

section \<open>\<open>search_duplicates\<close> and the aggregation of \<open>find_duplicates\<close>\<close>






lemma find_duplicates_all_duplicates:
  "find_duplicates db request_id threshold k =
     (case all_duplicates db request_id threshold k of
        Inl e \<Rightarrow> (Inl e, db)
      | Inr js \<Rightarrow>
          if js = [] then (Inr (Message ''No duplicates found''), db)
          else (Inr (Duplicates request_id (map (\<lambda>idx. fst (get_image_name db idx)) js)), db))"
proof (cases "request_map db request_id")
  case None
  then show ?thesis by (simp add: find_duplicates_def all_duplicates_def)
next
  case (Some r)
  obtain s e where r: "r = (s, e)" by (cases r)
  obtain res db1 where sd: "search_duplicates db request_id k = (res, db1)"
    by (cases "search_duplicates db request_id k")
  with search_duplicates_state [of db request_id k] have db1: "db1 = db" by simp
  show ?thesis
  proof (cases res)
    case (Inl e')
    with Some r sd db1 show ?thesis by (simp add: find_duplicates_def all_duplicates_def)
  next
    case (Inr dups)
    with Some r sd db1 show ?thesis
      by (cases "collect_duplicates s threshold dups []")
         (simp_all add: find_duplicates_def all_duplicates_def)
  qed
qed




lemma find_duplicates_state: "snd (find_duplicates db request_id threshold k) = db"
  by (simp add: find_duplicates_all_duplicates split: sum.splits)

subsection \<open>The example store evaluated\<close>

lemma store_two_record: "request_map store_two ''r'' = Some (0, 2)"
  by (simp add: store_two_eq)






section \<open>Claims\<close>

text \<open>
  C1. A batch in which some vector's length differs from the store's dimension is rejected
  by \<open>add_vectors\<close> with a \<open>ValueError\<close>, and the store it leaves is the store it was
  given: vector list, index, request map and name list are all untouched.
\<close>

theorem add_vectors_dimension_mismatch:
  assumes "v \<in> set vs" and "length v \<noteq> dim db"
  shows "\<exists>msg. add_vectors db request_id vs = (Inl (ValueError msg), db)"
proof (cases "np_array_shape vs")
  case (Inl e)
  from np_array_shape_Inl [OF Inl] Inl show ?thesis
    by (simp add: add_vectors_def)
next
  case (Inr shape)
  from assms(1) have "vs \<noteq> []" by auto
  with np_array_shape_cases [OF Inr]
  have sh: "shape = [length vs, length (hd vs)]" and all: "\<forall>w\<in>set vs. length w = length (hd vs)"
    by blast+
  from all assms have "length (hd vs) \<noteq> dim db" by metis
  with Inr sh show ?thesis by (simp add: add_vectors_def)
qed

theorem add_vectors_dimension_mismatch_witness:
  "[1] \<in> set [[0, 0], [1 :: real]] \<and> length [1 :: real] \<noteq> dim (VectorDB 2) \<and>
   (\<exists>msg. add_vectors (VectorDB 2) ''r'' [[0, 0], [1]] = (Inl (ValueError msg), VectorDB 2))"
  using add_vectors_dimension_mismatch [of "[1]" "[[0, 0], [1]]" "VectorDB 2" "''r''"]
  by (simp add: VectorDB_def)

text \<open>
  C2. A successful \<open>add_vectors\<close> on a store with \<open>N\<close> vectors (and as many names) records
  the range \<open>[N, N + len)\<close> for the request and appends exactly the names
  \<open>image_{N+1}, ..., image_{N+len}\<close>, so that index \<open>i\<close> of the batch is named
  \<open>"image_" + (i + 1)\<close>; \<open>add_images\<close> reports the same names. Three vectors added to an
  empty store are named \<open>image_1\<close>, \<open>image_2\<close>, \<open>image_3\<close> and the store then holds 3 vectors.
\<close>

theorem add_assigns_names:
  assumes "length (image_names db) = length (vectors db)"
  shows
    "(add_vectors db request_id vs = (Inr u, db') \<longrightarrow>
        request_map db' request_id
          = Some (int (length (vectors db)), int (length (vectors db) + length vs)) \<and>
        vectors db' = vectors db @ vs \<and>
        image_names db'
          = image_names db @ map name_of_index [length (vectors db)..<length (vectors db) + length vs] \<and>
        (\<forall>i. length (vectors db) \<le> i \<and> i < length (vectors db) + length vs \<longrightarrow>
             get_image_name db' (int i) = (Some (name_of_index i), db'))) \<and>
     (add_images ev db request_id req files = (Inr resp, db'') \<longrightarrow>
        system_image_names resp
          = map name_of_index [length (vectors db)..<length (vectors db) + added_images resp] \<and>
        length (vectors db'') = length (vectors db) + added_images resp) \<and>
     (length v1 = n \<and> length v2 = n \<and> length v3 = n \<longrightarrow>
        fst (add_vectors (VectorDB n) request_id [v1, v2, v3]) = Inr () \<and>
        image_names (snd (add_vectors (VectorDB n) request_id [v1, v2, v3]))
          = [''image_1'', ''image_2'', ''image_3''] \<and>
        length (vectors (snd (add_vectors (VectorDB n) request_id [v1, v2, v3]))) = 3)"
proof (intro conjI impI)
  assume a: "add_vectors db request_id vs = (Inr u, db')"
  then have db': "db' = committed db request_id vs" using add_vectors_Inr by blast
  show "request_map db' request_id
          = Some (int (length (vectors db)), int (length (vectors db) + length vs))"
    by (simp add: db' committed_fields)
  show "vectors db' = vectors db @ vs" by (simp add: db' committed_fields)
  show "image_names db'
          = image_names db @ map name_of_index [length (vectors db)..<length (vectors db) + length vs]"
    by (simp add: db' committed_fields)
  show "\<forall>i. length (vectors db) \<le> i \<and> i < length (vectors db) + length vs \<longrightarrow>
             get_image_name db' (int i) = (Some (name_of_index i), db')"
  proof (intro allI impI)
    fix i
    assume i: "length (vectors db) \<le> i \<and> i < length (vectors db) + length vs"
    then have "i - length (vectors db) < length (vectors db) + length vs - length (vectors db)"
      by arith
    from nth_map_upt [OF this, of name_of_index] i
    have "map name_of_index [length (vectors db)..<length (vectors db) + length vs]
            ! (i - length (vectors db)) = name_of_index i"
      by simp
    with i have "image_names db' ! i = name_of_index i"
      using assms by (simp add: db' committed_fields nth_append)
    with i assms show "get_image_name db' (int i) = (Some (name_of_index i), db')"
      by (simp add: get_image_name_def db' committed_fields)
  qed
next
  assume "add_images ev db request_id req files = (Inr resp, db'')"
  from add_images_Inr [OF this] obtain ws where
    ws: "add_vectors db request_id ws = (Inr (), db'')"
    and resp: "resp = \<lparr>response_request_id = request_id, added_images = length ws,
                    system_image_names = map name_of_index
                      [length (vectors db)..<length (vectors db) + length ws]\<rparr>"
    by blast
  from ws add_vectors_Inr have "db'' = committed db request_id ws" by blast
  with resp show "system_image_names resp
          = map name_of_index [length (vectors db)..<length (vectors db) + added_images resp]"
    and "length (vectors db'') = length (vectors db) + added_images resp"
    by (simp_all add: committed_fields)
next
  assume len: "length v1 = n \<and> length v2 = n \<and> length v3 = n"
  then have a: "add_vectors (VectorDB n) request_id [v1, v2, v3]
          = (Inr (), committed (VectorDB n) request_id [v1, v2, v3])"
    by (simp add: add_vectors_success VectorDB_fields)
  show "fst (add_vectors (VectorDB n) request_id [v1, v2, v3]) = Inr ()"
    by (simp add: a)
  show "image_names (snd (add_vectors (VectorDB n) request_id [v1, v2, v3]))
          = [''image_1'', ''image_2'', ''image_3'']"
    by (simp add: a committed_fields VectorDB_fields upt_rec name_of_index_small)
  show "length (vectors (snd (add_vectors (VectorDB n) request_id [v1, v2, v3]))) = 3"
    by (simp add: a committed_fields VectorDB_fields)
qed

theorem add_assigns_names_witness:
  "length (image_names (VectorDB 2)) = length (vectors (VectorDB 2)) \<and>
   fst (add_vectors (VectorDB 2) ''r'' [[1, 2], [3, 4], [5, 6]]) = Inr () \<and>
   image_names (snd (add_vectors (VectorDB 2) ''r'' [[1, 2], [3, 4], [5, 6]]))
     = [''image_1'', ''image_2'', ''image_3''] \<and>
   fst (get_image_name (snd (add_vectors (VectorDB 2) ''r'' [[1, 2], [3, 4], [5, 6]])) 2)
     = Some ''image_3'' \<and>
   fst (add_images demo_env (VectorDB 2) ''r'' plain_request demo_upload)
     = Inr \<lparr>response_request_id = ''r'', added_images = 1, system_image_names = [''image_1'']\<rparr> \<and>
   length (vectors (snd (add_images demo_env (VectorDB 2) ''r'' plain_request demo_upload))) = 1"
proof -
  let ?vs = "[[1, 2], [3, 4], [5, 6 :: real]]"
  let ?C = "snd (add_vectors (VectorDB 2) ''r'' ?vs)"
  let ?A = "snd (add_images demo_env (VectorDB 2) ''r'' plain_request demo_upload)"
  have h: "length (image_names (VectorDB 2)) = length (vectors (VectorDB 2))"
    by (simp add: VectorDB_fields)
  have a: "add_vectors (VectorDB 2) ''r'' ?vs = (Inr (), ?C)"
    by (simp add: add_vectors_success VectorDB_fields)
  have b: "add_images demo_env (VectorDB 2) ''r'' plain_request demo_upload
     = (Inr \<lparr>response_request_id = ''r'', added_images = 1, system_image_names = [''image_1'']\<rparr>, ?A)"
    by (simp add: demo_add_images)
  note T = add_assigns_names [OF h, where request_id = "''r''" and vs = ?vs and u = "()"
      and db' = ?C and ev = demo_env and req = plain_request and files = demo_upload
      and resp = "\<lparr>response_request_id = ''r'', added_images = 1, system_image_names = [''image_1'']\<rparr>"
      and db'' = ?A
      and ?v1.0 = "[1, 2]" and n = 2 and ?v2.0 = "[3, 4]" and ?v3.0 = "[5, 6]"]
  from T a have names: "image_names ?C = image_names (VectorDB 2) @ map name_of_index
        [length (vectors (VectorDB 2))..<length (vectors (VectorDB 2)) + length ?vs]"
    and g: "\<forall>i. length (vectors (VectorDB 2)) \<le> i \<and> i < length (vectors (VectorDB 2)) + length ?vs \<longrightarrow>
             get_image_name ?C (int i) = (Some (name_of_index i), ?C)"
    by blast+
  from names have n3: "image_names ?C = [''image_1'', ''image_2'', ''image_3'']"
    by (simp add: VectorDB_fields upt_rec name_of_index_small)
  from g [rule_format, of 2] have "get_image_name ?C (int 2) = (Some (name_of_index 2), ?C)"
    by (simp add: VectorDB_fields)
  then have g2: "fst (get_image_name ?C 2) = Some ''image_3''"
    by (simp add: name_of_index_def str_int_small)
  from T b have "length (vectors ?A) = length (vectors (VectorDB 2)) + 1"
    by simp
  then have l: "length (vectors ?A) = 1" by (simp add: VectorDB_fields)
  from a have f: "fst (add_vectors (VectorDB 2) ''r'' ?vs) = Inr ()" by (metis fst_conv)
  have fb: "fst (add_images demo_env (VectorDB 2) ''r'' plain_request demo_upload)
     = Inr \<lparr>response_request_id = ''r'', added_images = 1, system_image_names = [''image_1'']\<rparr>"
    by (simp add: demo_add_images)
  from h f n3 g2 fb l show ?thesis by (intro conjI)
qed




text \<open>
  C4 (as the code has it). Registering happens only in \<open>add_vectors\<close>, by assignment into
  the request map: for a token that is already present and a well-formed batch the call
  succeeds, the token's record becomes the range of the new batch, and the records of all
  other tokens stay as they were. There is no duplicate-token error.
\<close>

theorem add_vectors_overwrites_record:
  assumes "request_map db request_id = Some r" and "vs \<noteq> []"
    and "\<forall>v\<in>set vs. length v = dim db"
  shows "fst (add_vectors db request_id vs) = Inr () \<and>
         request_map (snd (add_vectors db request_id vs)) request_id
           = Some (int (length (vectors db)), int (length (vectors db)) + int (length vs)) \<and>
         (\<forall>t. t \<noteq> request_id \<longrightarrow>
            request_map (snd (add_vectors db request_id vs)) t = request_map db t)"
  using assms by (simp add: add_vectors_success committed_fields)

theorem add_vectors_overwrites_record_witness:
  "request_map store_two ''r'' = Some (0, 2) \<and> [[5 :: real]] \<noteq> [] \<and>
   length [5 :: real] = dim store_two \<and>
   fst (add_vectors store_two ''r'' [[5]]) = Inr () \<and>
   request_map (snd (add_vectors store_two ''r'' [[5]])) ''r'' = Some (2, 3)"
  using add_vectors_overwrites_record [of store_two "''r''" "(0, 2)" "[[5]]"]
  by (simp add: store_two_eq)

text \<open>
  C4 as stated fails: the token \<open>r\<close> is registered with range \<open>[0, 2)\<close>; adding a batch
  under \<open>r\<close> again succeeds and the record of \<open>r\<close> becomes \<open>[2, 3)\<close>.
\<close>

theorem duplicate_token_accepted:
  "request_map store_two ''r'' = Some (0, 2) \<and>
   fst (add_vectors store_two ''r'' [[5]]) = Inr () \<and>
   request_map (snd (add_vectors store_two ''r'' [[5]])) ''r'' = Some (2, 3)"
  by (simp add: store_two_eq add_vectors_success committed_fields)




text \<open>
  C6. For a token that is not in the request map, \<open>search_duplicates\<close> raises
  \<open>ValueError("Request ID not found")\<close> and \<open>find_duplicates\<close> raises the HTTP error 404
  with the same text; both leave the store as it was.
\<close>

theorem unknown_request_not_found:
  assumes "request_map db request_id = None"
  shows "search_duplicates db request_id k = (Inl (ValueError ''Request ID not found''), db) \<and>
         find_duplicates db request_id threshold k
           = (Inl (HTTPException 404 ''Request ID not found'' None), db)"
  using assms by (simp add: search_duplicates_def find_duplicates_def)

theorem unknown_request_not_found_witness:
  "request_map store_two ''other'' = None \<and>
   search_duplicates store_two ''other'' 3 = (Inl (ValueError ''Request ID not found''), store_two) \<and>
   find_duplicates store_two ''other'' 1 3
     = (Inl (HTTPException 404 ''Request ID not found'' None), store_two)"
proof -
  have h: "request_map store_two ''other'' = None" by (simp add: store_two_eq)
  from unknown_request_not_found [OF h, of 3 1] h show ?thesis by simp
qed

text \<open>
  C7. After \<open>reset\<close> the vector list, the name list, the request map and the index are
  empty, so every token, also one registered before, is reported as not found; a
  successful \<open>add_vectors\<close> on the reset store records the range \<open>[0, len)\<close> and its first
  name is \<open>image_1\<close>.
\<close>

theorem reset_clears_store:
  "vectors (snd (reset db)) = [] \<and> image_names (snd (reset db)) = [] \<and>
   request_map (snd (reset db)) = Map.empty \<and> ntotal (index (snd (reset db))) = 0 \<and>
   search_duplicates (snd (reset db)) token k
     = (Inl (ValueError ''Request ID not found''), snd (reset db)) \<and>
   find_duplicates (snd (reset db)) token threshold k
     = (Inl (HTTPException 404 ''Request ID not found'' None), snd (reset db)) \<and>
   (add_vectors (snd (reset db)) request_id vs = (Inr u, db') \<longrightarrow>
      request_map db' request_id = Some (0, int (length vs)) \<and>
      vectors db' = vs \<and>
      image_names db' = map name_of_index [0..<length vs] \<and>
      image_names db' ! 0 = ''image_1'')"
proof -
  have "add_vectors (snd (reset db)) request_id vs = (Inr u, db') \<longrightarrow>
      request_map db' request_id = Some (0, int (length vs)) \<and>
      vectors db' = vs \<and>
      image_names db' = map name_of_index [0..<length vs] \<and>
      image_names db' ! 0 = ''image_1''"
  proof
    assume a: "add_vectors (snd (reset db)) request_id vs = (Inr u, db')"
    from add_vectors_Inr [OF a] have ne: "vs \<noteq> []"
      and db': "db' = committed (snd (reset db)) request_id vs" by blast+
    from ne have "map name_of_index [0..<length vs] ! 0 = ''image_1''"
      by (cases vs) (simp_all add: upt_rec name_of_index_small)
    then show "request_map db' request_id = Some (0, int (length vs)) \<and>
      vectors db' = vs \<and>
      image_names db' = map name_of_index [0..<length vs] \<and>
      image_names db' ! 0 = ''image_1''"
      by (simp add: db' committed_fields reset_fields)
  qed
  moreover have "vectors (snd (reset db)) = [] \<and> image_names (snd (reset db)) = [] \<and>
   request_map (snd (reset db)) = Map.empty \<and> ntotal (index (snd (reset db))) = 0 \<and>
   search_duplicates (snd (reset db)) token k
     = (Inl (ValueError ''Request ID not found''), snd (reset db)) \<and>
   find_duplicates (snd (reset db)) token threshold k
     = (Inl (HTTPException 404 ''Request ID not found'' None), snd (reset db))"
    by (simp add: reset_fields search_duplicates_def find_duplicates_def ntotal_def faiss_reset_def)
  ultimately show ?thesis by blast
qed

theorem reset_clears_store_witness:
  "request_map store_two ''r'' = Some (0, 2) \<and>
   search_duplicates (snd (reset store_two)) ''r'' 3
     = (Inl (ValueError ''Request ID not found''), snd (reset store_two)) \<and>
   fst (add_vectors (snd (reset store_two)) ''s'' [[7]]) = Inr () \<and>
   request_map (snd (add_vectors (snd (reset store_two)) ''s'' [[7]])) ''s'' = Some (0, 1) \<and>
   image_names (snd (add_vectors (snd (reset store_two)) ''s'' [[7]])) = [''image_1'']"
proof -
  let ?C = "snd (add_vectors (snd (reset store_two)) ''s'' [[7]])"
  have a: "add_vectors (snd (reset store_two)) ''s'' [[7]] = (Inr (), ?C)"
    by (simp add: add_vectors_success reset_fields store_two_eq)
  from reset_clears_store [where db = store_two and token = "''r''" and k = 3 and threshold = 1
      and request_id = "''s''" and vs = "[[7]]" and u = "()" and db' = ?C] a
  have "search_duplicates (snd (reset store_two)) ''r'' 3
          = (Inl (ValueError ''Request ID not found''), snd (reset store_two))"
    and "request_map ?C ''s'' = Some (0, int (length [[7 :: real]]))"
    and "image_names ?C = map name_of_index [0..<length [[7 :: real]]]"
    by blast+
  moreover from a have "fst (add_vectors (snd (reset store_two)) ''s'' [[7]]) = Inr ()"
    by (metis fst_conv)
  ultimately show ?thesis using store_two_record by (simp add: name_of_index_small)
qed

text \<open>
  C8. If every record of the request map is a range \<open>0 \<le> start \<le> end \<le> N\<close>, then so it is
  after \<open>add_vectors\<close> (successful or not), after \<open>search_duplicates\<close>, after
  \<open>get_image_name\<close>, after \<open>reset\<close>, and after the handlers \<open>add_images\<close> and
  \<open>find_duplicates\<close>.
\<close>

theorem records_in_range_preserved:
  assumes "records_in_range db"
  shows "records_in_range (snd (add_vectors db request_id vs)) \<and>
         records_in_range (snd (search_duplicates db token k)) \<and>
         records_in_range (snd (get_image_name db idx)) \<and>
         records_in_range (snd (reset db)) \<and>
         records_in_range (snd (add_images ev db request_id req files)) \<and>
         records_in_range (snd (find_duplicates db token threshold k))"
proof -
  have "records_in_range (snd (add_vectors db request_id vs))"
    using add_vectors_state [of db request_id vs] assms records_in_range_committed [OF assms]
    by auto
  moreover have "records_in_range (snd (reset db))"
    by (simp add: records_in_range_def reset_fields)
  moreover have "records_in_range (snd (add_images ev db request_id req files))"
    using add_images_state [of ev db request_id req files] assms
      records_in_range_committed [OF assms]
    by auto
  ultimately show ?thesis
    using assms by (simp add: search_duplicates_state get_image_name_state find_duplicates_state)
qed

theorem records_in_range_preserved_witness:
  "records_in_range store_two \<and>
   records_in_range (snd (add_vectors store_two ''s'' [[7]])) \<and>
   records_in_range (snd (search_duplicates store_two ''r'' 3)) \<and>
   records_in_range (snd (get_image_name store_two 1)) \<and>
   records_in_range (snd (reset store_two)) \<and>
   records_in_range (snd (add_images demo_env store_two ''s'' plain_request demo_upload)) \<and>
   records_in_range (snd (find_duplicates store_two ''r'' 1 3))"
proof -
  have h: "records_in_range store_two"
    by (simp add: records_in_range_def store_two_eq)
  from records_in_range_preserved [OF h, where request_id = "''s''" and vs = "[[7]]"
      and token = "''r''" and k = 3 and idx = 1 and ev = demo_env and req = plain_request
      and files = demo_upload and threshold = 1] h
  show ?thesis by simp
qed

text \<open>
  C9 at a Base64 image. An image one byte above the limit of \<open>10 * 1024 * 1024\<close> bytes,
  submitted as Base64 text, is refused by \<open>process_image\<close> with status 400 before the
  embedding is attempted, but the loop's \<open>except Exception\<close> catches that refusal and the
  handler answers with status 500; the store is untouched. The multipart and URL loops let
  the same refusal through with status 400 (\<open>multipart_upload_oversize_400\<close>,
  \<open>url_oversize_400\<close>).
\<close>

theorem base64_oversize_500:
  "add_images demo_env (VectorDB 2) ''r'' base64_request None
     = (Inl (HTTPException 500 ''Error processing Base64 image: ''
              (Some (HTTPException 400 ''Image size exceeds 10 MB'' None))), VectorDB 2)"
  by (simp add: add_images_def gather_vectors_def base64_request_def demo_env_def
        process_image_oversize)

text \<open>
  C10. \<open>get_image_name\<close> returns the stored name for an index with
  \<open>0 \<le> index < len(image_names)\<close> and \<open>None\<close> for every other integer, negative ones
  included; it never raises and leaves the store as it was.
\<close>

theorem get_image_name_total:
  "(0 \<le> idx \<and> idx < int (length (image_names db)) \<longrightarrow>
      get_image_name db idx = (Some (image_names db ! nat idx), db)) \<and>
   (idx < 0 \<or> int (length (image_names db)) \<le> idx \<longrightarrow> get_image_name db idx = (None, db))"
  by (auto simp: get_image_name_def)

theorem get_image_name_total_witness:
  "get_image_name store_two 1 = (Some ''image_2'', store_two) \<and>
   get_image_name store_two (- 1) = (None, store_two) \<and>
   get_image_name store_two 2 = (None, store_two)"
  using get_image_name_total [of 1 store_two] get_image_name_total [of "- 1" store_two]
    get_image_name_total [of 2 store_two]
  by (simp add: store_two_eq)

end
